theory Spec2Isabelle
  imports Complex_Main "HOL-Library.AList"
begin

section \<open>The engine's JSON object model\<close>

text \<open>
  The plugin exchanges JSON text with the bridge through the engine's JSON library
  (\<^verbatim>\<open>FJsonObject\<close>, \<^verbatim>\<open>FJsonValue\<close>, \<^verbatim>\<open>FJsonSerializer\<close>). A JSON value is a tree; an
  object is a list of key/value pairs with distinct keys, read with \<open>map_of\<close> and written
  with \<open>AList.update\<close>. The C++ types \<^verbatim>\<open>float\<close> and \<^verbatim>\<open>double\<close> are modelled by
  \<open>real\<close>: every numeric literal denotes its decimal value and arithmetic is exact, so
  rounding and overflow of the machine formats are outside the model.
\<close>

datatype FJsonValue =
    FJsonValueNull
  | FJsonValueBoolean bool
  | FJsonValueNumber real
  | FJsonValueString string
  | FJsonValueArray "FJsonValue list"
  | FJsonValueObject "(string \<times> FJsonValue) list"

type_synonym FJsonObject = "(string \<times> FJsonValue) list"

text \<open>
  Modelled from the spec: the field accessors of \<^verbatim>\<open>FJsonObject\<close> belong to the engine and
  are not part of the repository. Following the spec, a key is applied when it is
  "present and type-correct"; a \<^verbatim>\<open>TryGet\<close> accessor that fails leaves its out-parameter
  alone, which is the result \<open>None\<close> here. \<^verbatim>\<open>GetObjectField\<close> yields an invalid pointer
  (\<open>None\<close>) when the key is absent or does not hold an object, the case for which its
  caller keeps an \<^verbatim>\<open>else\<close> branch.
\<close>

definition HasField :: "FJsonObject \<Rightarrow> string \<Rightarrow> bool" where
  "HasField obj k = (case map_of obj k of None \<Rightarrow> False | Some v \<Rightarrow> True)"

definition TryGetBoolField :: "FJsonObject \<Rightarrow> string \<Rightarrow> bool option" where
  "TryGetBoolField obj k = (case map_of obj k of Some (FJsonValueBoolean b) \<Rightarrow> Some b | _ \<Rightarrow> None)"

definition TryGetNumberField :: "FJsonObject \<Rightarrow> string \<Rightarrow> real option" where
  "TryGetNumberField obj k = (case map_of obj k of Some (FJsonValueNumber x) \<Rightarrow> Some x | _ \<Rightarrow> None)"

definition TryGetStringField :: "FJsonObject \<Rightarrow> string \<Rightarrow> string option" where
  "TryGetStringField obj k = (case map_of obj k of Some (FJsonValueString s) \<Rightarrow> Some s | _ \<Rightarrow> None)"

definition GetObjectField :: "FJsonObject \<Rightarrow> string \<Rightarrow> FJsonObject option" where
  "GetObjectField obj k = (case map_of obj k of Some (FJsonValueObject d) \<Rightarrow> Some d | _ \<Rightarrow> None)"

definition SetBoolField :: "string \<Rightarrow> bool \<Rightarrow> FJsonObject \<Rightarrow> FJsonObject" where
  "SetBoolField k b obj = AList.update k (FJsonValueBoolean b) obj"

definition SetNumberField :: "string \<Rightarrow> real \<Rightarrow> FJsonObject \<Rightarrow> FJsonObject" where
  "SetNumberField k x obj = AList.update k (FJsonValueNumber x) obj"

definition SetStringField :: "string \<Rightarrow> string \<Rightarrow> FJsonObject \<Rightarrow> FJsonObject" where
  "SetStringField k s obj = AList.update k (FJsonValueString s) obj"

definition SetObjectField :: "string \<Rightarrow> FJsonObject \<Rightarrow> FJsonObject \<Rightarrow> FJsonObject" where
  "SetObjectField k d obj = AList.update k (FJsonValueObject d) obj"

text \<open>
  The writer and the reader of JSON text (\<^verbatim>\<open>FJsonSerializer::Serialize\<close> and
  \<^verbatim>\<open>FJsonSerializer::Deserialize\<close>) are engine code as well. Every function of the plugin
  that produces or parses text takes them as a parameter. \<open>Deserialize\<close> returns \<open>None\<close>
  where the engine's reader returns \<^verbatim>\<open>false\<close> or leaves the object pointer invalid: the
  text is not a JSON object.
\<close>

record FJsonSerializer =
  Serialize :: "FJsonObject \<Rightarrow> string"
  Deserialize :: "string \<Rightarrow> FJsonObject option"

text \<open>
  A serializer given by a finite table of texts and the objects they denote. It stands in
  for the engine's serializer wherever a statement is evaluated on concrete frames.
\<close>

definition table_serializer :: "(string \<times> FJsonObject) list \<Rightarrow> FJsonSerializer" where
  "table_serializer tbl =
     \<lparr> Serialize = (\<lambda>obj. case find (\<lambda>row. snd row = obj) tbl of
                               None \<Rightarrow> [] | Some row \<Rightarrow> fst row),
       Deserialize = map_of tbl \<rparr>"

text \<open>
  What the round trip of the settings asks of the engine: the text that the writer
  produces for an object is read back as an object with the same fields.
\<close>

definition ReadsBack :: "FJsonSerializer \<Rightarrow> FJsonObject \<Rightarrow> bool" where
  "ReadsBack J obj =
     (case Deserialize J (Serialize J obj) of
        None \<Rightarrow> False
      | Some obj' \<Rightarrow> map_of obj' = map_of obj)"


section \<open>Accessibility settings (ALEJOAccessibilitySettings)\<close>

record UALEJOAccessibilitySettings =
  bHighContrastMode :: bool
  FontScaleFactor :: real
  bColorBlindMode :: bool
  ColorBlindnessType :: string
  bScreenReaderEnabled :: bool
  bVisualAlternativesToAudio :: bool
  bSignLanguageEnabled :: bool
  SignLanguagePreference :: string
  bCaptionsEnabled :: bool
  CaptionScaleFactor :: real
  bHapticFeedbackEnabled :: bool
  InputHoldDuration :: real
  bSimplifiedGestureControls :: bool
  bSimplifiedLanguage :: bool
  bReducedMotion :: bool
  bFocusAssistance :: bool
  ReadingSpeedFactor :: real

text \<open>The constructor: the defaults of a fresh settings object.\<close>

definition NewSettings :: UALEJOAccessibilitySettings where
  "NewSettings =
     \<lparr> bHighContrastMode = False,
       FontScaleFactor = 1.0,
       bColorBlindMode = False,
       ColorBlindnessType = ''None'',
       bScreenReaderEnabled = False,
       bVisualAlternativesToAudio = False,
       bSignLanguageEnabled = False,
       SignLanguagePreference = ''ASL'',
       bCaptionsEnabled = True,
       CaptionScaleFactor = 1.0,
       bHapticFeedbackEnabled = True,
       InputHoldDuration = 0.3,
       bSimplifiedGestureControls = False,
       bSimplifiedLanguage = False,
       bReducedMotion = False,
       bFocusAssistance = False,
       ReadingSpeedFactor = 1.0 \<rparr>"

text \<open>
  The ranges that the header declares for the four numeric properties
  (\<^verbatim>\<open>ClampMin\<close>/\<^verbatim>\<open>ClampMax\<close> metadata).
\<close>

definition in_declared_ranges :: "UALEJOAccessibilitySettings \<Rightarrow> bool" where
  "in_declared_ranges p =
     (0.5 \<le> FontScaleFactor p \<and> FontScaleFactor p \<le> 3.0 \<and>
      0.5 \<le> CaptionScaleFactor p \<and> CaptionScaleFactor p \<le> 3.0 \<and>
      0.1 \<le> InputHoldDuration p \<and> InputHoldDuration p \<le> 2.0 \<and>
      0.5 \<le> ReadingSpeedFactor p \<and> ReadingSpeedFactor p \<le> 2.0)"

text \<open>The JSON object that \<^verbatim>\<open>ToJsonString\<close> builds, field by field, before serializing it.\<close>

definition SettingsJsonObject :: "UALEJOAccessibilitySettings \<Rightarrow> FJsonObject" where
  "SettingsJsonObject p =
     (let obj = [];
          obj = SetBoolField ''highContrastMode'' (bHighContrastMode p) obj;
          obj = SetNumberField ''fontScaleFactor'' (FontScaleFactor p) obj;
          obj = SetBoolField ''colorBlindMode'' (bColorBlindMode p) obj;
          obj = SetStringField ''colorBlindnessType'' (ColorBlindnessType p) obj;
          obj = SetBoolField ''screenReaderEnabled'' (bScreenReaderEnabled p) obj;
          obj = SetBoolField ''visualAlternativesToAudio'' (bVisualAlternativesToAudio p) obj;
          obj = SetBoolField ''signLanguageEnabled'' (bSignLanguageEnabled p) obj;
          obj = SetStringField ''signLanguagePreference'' (SignLanguagePreference p) obj;
          obj = SetBoolField ''captionsEnabled'' (bCaptionsEnabled p) obj;
          obj = SetNumberField ''captionScaleFactor'' (CaptionScaleFactor p) obj;
          obj = SetBoolField ''hapticFeedbackEnabled'' (bHapticFeedbackEnabled p) obj;
          obj = SetNumberField ''inputHoldDuration'' (InputHoldDuration p) obj;
          obj = SetBoolField ''simplifiedGestureControls'' (bSimplifiedGestureControls p) obj;
          obj = SetBoolField ''simplifiedLanguage'' (bSimplifiedLanguage p) obj;
          obj = SetBoolField ''reducedMotion'' (bReducedMotion p) obj;
          obj = SetBoolField ''focusAssistance'' (bFocusAssistance p) obj;
          obj = SetNumberField ''readingSpeedFactor'' (ReadingSpeedFactor p) obj
      in obj)"

definition ToJsonString :: "FJsonSerializer \<Rightarrow> UALEJOAccessibilitySettings \<Rightarrow> string" where
  "ToJsonString J p = Serialize J (SettingsJsonObject p)"

text \<open>
  One \<^verbatim>\<open>TryGet...Field(key, Member)\<close> call: the member is overwritten when the accessor
  succeeds and keeps its value otherwise.
\<close>

definition TryGet :: "'v option \<Rightarrow> ('v \<Rightarrow> 'r \<Rightarrow> 'r) \<Rightarrow> 'r \<Rightarrow> 'r" where
  "TryGet found assign p = (case found of None \<Rightarrow> p | Some v \<Rightarrow> assign v p)"

definition ReadSettingsFields ::
  "FJsonObject \<Rightarrow> UALEJOAccessibilitySettings \<Rightarrow> UALEJOAccessibilitySettings" where
  "ReadSettingsFields obj p =
     (let p = TryGet (TryGetBoolField obj ''highContrastMode'') (\<lambda>v q. q\<lparr>bHighContrastMode := v\<rparr>) p;
          p = TryGet (TryGetNumberField obj ''fontScaleFactor'') (\<lambda>v q. q\<lparr>FontScaleFactor := v\<rparr>) p;
          p = TryGet (TryGetBoolField obj ''colorBlindMode'') (\<lambda>v q. q\<lparr>bColorBlindMode := v\<rparr>) p;
          p = TryGet (TryGetStringField obj ''colorBlindnessType'') (\<lambda>v q. q\<lparr>ColorBlindnessType := v\<rparr>) p;
          p = TryGet (TryGetBoolField obj ''screenReaderEnabled'') (\<lambda>v q. q\<lparr>bScreenReaderEnabled := v\<rparr>) p;
          p = TryGet (TryGetBoolField obj ''visualAlternativesToAudio'') (\<lambda>v q. q\<lparr>bVisualAlternativesToAudio := v\<rparr>) p;
          p = TryGet (TryGetBoolField obj ''signLanguageEnabled'') (\<lambda>v q. q\<lparr>bSignLanguageEnabled := v\<rparr>) p;
          p = TryGet (TryGetStringField obj ''signLanguagePreference'') (\<lambda>v q. q\<lparr>SignLanguagePreference := v\<rparr>) p;
          p = TryGet (TryGetBoolField obj ''captionsEnabled'') (\<lambda>v q. q\<lparr>bCaptionsEnabled := v\<rparr>) p;
          p = TryGet (TryGetNumberField obj ''captionScaleFactor'') (\<lambda>v q. q\<lparr>CaptionScaleFactor := v\<rparr>) p;
          p = TryGet (TryGetBoolField obj ''hapticFeedbackEnabled'') (\<lambda>v q. q\<lparr>bHapticFeedbackEnabled := v\<rparr>) p;
          p = TryGet (TryGetNumberField obj ''inputHoldDuration'') (\<lambda>v q. q\<lparr>InputHoldDuration := v\<rparr>) p;
          p = TryGet (TryGetBoolField obj ''simplifiedGestureControls'') (\<lambda>v q. q\<lparr>bSimplifiedGestureControls := v\<rparr>) p;
          p = TryGet (TryGetBoolField obj ''simplifiedLanguage'') (\<lambda>v q. q\<lparr>bSimplifiedLanguage := v\<rparr>) p;
          p = TryGet (TryGetBoolField obj ''reducedMotion'') (\<lambda>v q. q\<lparr>bReducedMotion := v\<rparr>) p;
          p = TryGet (TryGetBoolField obj ''focusAssistance'') (\<lambda>v q. q\<lparr>bFocusAssistance := v\<rparr>) p;
          p = TryGet (TryGetNumberField obj ''readingSpeedFactor'') (\<lambda>v q. q\<lparr>ReadingSpeedFactor := v\<rparr>) p
      in p)"

text \<open>
  \<^verbatim>\<open>FromJsonString\<close> returns its \<^verbatim>\<open>bool\<close> result together with the settings object after
  the call.
\<close>

definition FromJsonString ::
  "FJsonSerializer \<Rightarrow> string \<Rightarrow> UALEJOAccessibilitySettings \<Rightarrow> bool \<times> UALEJOAccessibilitySettings"
  where
  "FromJsonString J Text p =
     (case Deserialize J Text of
        None \<Rightarrow> (False, p)
      | Some obj \<Rightarrow> (True, ReadSettingsFields obj p))"

text \<open>The keys of the settings object, in the order in which they are written and read.\<close>

definition SettingsKeys :: "string list" where
  "SettingsKeys =
     [''highContrastMode'', ''fontScaleFactor'', ''colorBlindMode'', ''colorBlindnessType'',
      ''screenReaderEnabled'', ''visualAlternativesToAudio'', ''signLanguageEnabled'',
      ''signLanguagePreference'', ''captionsEnabled'', ''captionScaleFactor'',
      ''hapticFeedbackEnabled'', ''inputHoldDuration'', ''simplifiedGestureControls'',
      ''simplifiedLanguage'', ''reducedMotion'', ''focusAssistance'', ''readingSpeedFactor'']"


text \<open>The settings object that the plugin's automation test configures.\<close>

definition TestSettings :: UALEJOAccessibilitySettings where
  "TestSettings =
     NewSettings\<lparr> bScreenReaderEnabled := True, bHighContrastMode := True, FontScaleFactor := 1.5 \<rparr>"

text \<open>The JSON text of these settings and the object that it denotes.\<close>

definition TestSettingsJson :: string where
  \<open>TestSettingsJson =
     ''{"highContrastMode":true,"fontScaleFactor":1.5,"colorBlindMode":false,'' @
     ''"colorBlindnessType":"None","screenReaderEnabled":true,'' @
     ''"visualAlternativesToAudio":false,"signLanguageEnabled":false,'' @
     ''"signLanguagePreference":"ASL","captionsEnabled":true,"captionScaleFactor":1,'' @
     ''"hapticFeedbackEnabled":true,"inputHoldDuration":0.3,'' @
     ''"simplifiedGestureControls":false,"simplifiedLanguage":false,"reducedMotion":false,'' @
     ''"focusAssistance":false,"readingSpeedFactor":1}''\<close>

definition TestSettingsObject :: FJsonObject where
  "TestSettingsObject =
     [(''highContrastMode'', FJsonValueBoolean True),
      (''fontScaleFactor'', FJsonValueNumber 1.5),
      (''colorBlindMode'', FJsonValueBoolean False),
      (''colorBlindnessType'', FJsonValueString ''None''),
      (''screenReaderEnabled'', FJsonValueBoolean True),
      (''visualAlternativesToAudio'', FJsonValueBoolean False),
      (''signLanguageEnabled'', FJsonValueBoolean False),
      (''signLanguagePreference'', FJsonValueString ''ASL''),
      (''captionsEnabled'', FJsonValueBoolean True),
      (''captionScaleFactor'', FJsonValueNumber 1),
      (''hapticFeedbackEnabled'', FJsonValueBoolean True),
      (''inputHoldDuration'', FJsonValueNumber 0.3),
      (''simplifiedGestureControls'', FJsonValueBoolean False),
      (''simplifiedLanguage'', FJsonValueBoolean False),
      (''reducedMotion'', FJsonValueBoolean False),
      (''focusAssistance'', FJsonValueBoolean False),
      (''readingSpeedFactor'', FJsonValueNumber 1)]"


section \<open>The bridge connection (ALEJOSubsystem)\<close>

text \<open>
  The subsystem holds one shared pointer to a socket of the engine's WebSockets module.
  The socket's own connection state is what \<^verbatim>\<open>IWebSocket::IsConnected\<close> reports. Calls
  into the module are recorded in a log, and so are the broadcasts on the subsystem's
  multicast delegates: a broadcast reaches every observer bound to that delegate.
\<close>

datatype EWebSocketState = WsConnecting | WsOpen | WsClosed

record IWebSocket =
  Url :: string
  State :: EWebSocketState

datatype transport_call =
    CreateWebSocket string
  | SocketConnect
  | SocketSend string
  | SocketClose

datatype broadcast =
    OnTextProcessed string
  | OnVoiceProcessed string
  | OnALEJOEvent string string
  | OnResourceModeChanged string
  | OnConnected
  | OnDisconnected
  | OnError string

record UALEJOSubsystem =
  WebSocket :: "IWebSocket option"
  Transport :: "transport_call list"
  Broadcasts :: "broadcast list"

text \<open>The subsystem after \<^verbatim>\<open>Initialize\<close>, before the delayed first \<^verbatim>\<open>Connect\<close>.\<close>

definition Initial :: UALEJOSubsystem where
  "Initial = \<lparr> WebSocket = None, Transport = [], Broadcasts = [] \<rparr>"

definition Broadcast :: "broadcast \<Rightarrow> UALEJOSubsystem \<Rightarrow> UALEJOSubsystem" where
  "Broadcast b s = s\<lparr>Broadcasts := Broadcasts s @ [b]\<rparr>"

definition Send :: "string \<Rightarrow> UALEJOSubsystem \<Rightarrow> UALEJOSubsystem" where
  "Send MessageString s = s\<lparr>Transport := Transport s @ [SocketSend MessageString]\<rparr>"

definition IsConnected :: "UALEJOSubsystem \<Rightarrow> bool" where
  "IsConnected s = (case WebSocket s of None \<Rightarrow> False | Some ws \<Rightarrow> State ws = WsOpen)"

text \<open>
  \<^verbatim>\<open>ConnectToWebSocket\<close> creates a socket, stores it in the member (dropping the pointer held
  before), registers the four callbacks and starts the connection attempt.
\<close>

definition ConnectToWebSocket :: "string \<Rightarrow> UALEJOSubsystem \<Rightarrow> UALEJOSubsystem" where
  "ConnectToWebSocket ServerURL s =
     s\<lparr> WebSocket := Some \<lparr> Url = ServerURL, State = WsConnecting \<rparr>,
        Transport := Transport s @ [CreateWebSocket ServerURL, SocketConnect] \<rparr>"

definition Connect :: "string \<Rightarrow> UALEJOSubsystem \<Rightarrow> UALEJOSubsystem" where
  "Connect ServerURL s = (if IsConnected s then s else ConnectToWebSocket ServerURL s)"

definition Disconnect :: "UALEJOSubsystem \<Rightarrow> UALEJOSubsystem" where
  "Disconnect s =
     (if IsConnected s
      then s\<lparr> WebSocket := None, Transport := Transport s @ [SocketClose] \<rparr>
      else s)"

text \<open>The optional context map of a request, as the object built from its pairs.\<close>

definition ContextObject :: "(string \<times> string) list \<Rightarrow> FJsonObject" where
  "ContextObject Context = fold (\<lambda>Pair obj. SetStringField (fst Pair) (snd Pair) obj) Context []"

definition ProcessText ::
  "FJsonSerializer \<Rightarrow> string \<Rightarrow> (string \<times> string) list \<Rightarrow> UALEJOSubsystem \<Rightarrow> UALEJOSubsystem"
  where
  "ProcessText J Text Context s =
     (if \<not> IsConnected s then Broadcast (OnError ''Not connected to ALEJO bridge'') s
      else
        let MessageObj = SetStringField ''text'' Text [];
            MessageObj = (if length Context > 0
                          then SetObjectField ''context'' (ContextObject Context) MessageObj
                          else MessageObj)
        in Send (Serialize J MessageObj) s)"

definition ProcessVoiceCommand ::
  "FJsonSerializer \<Rightarrow> string \<Rightarrow> (string \<times> string) list \<Rightarrow> UALEJOSubsystem \<Rightarrow> UALEJOSubsystem"
  where
  "ProcessVoiceCommand J Command Context s =
     (if \<not> IsConnected s then Broadcast (OnError ''Not connected to ALEJO bridge'') s
      else
        let MessageObj = SetStringField ''command'' Command [];
            MessageObj = (if length Context > 0
                          then SetObjectField ''context'' (ContextObject Context) MessageObj
                          else MessageObj)
        in Send (Serialize J MessageObj) s)"

text \<open>The settings pointer may be null: \<open>None\<close>.\<close>

definition UpdateAccessibilitySettings ::
  "FJsonSerializer \<Rightarrow> UALEJOAccessibilitySettings option \<Rightarrow> UALEJOSubsystem \<Rightarrow> UALEJOSubsystem"
  where
  "UpdateAccessibilitySettings J Settings s =
     (if \<not> IsConnected s \<or> Settings = None
      then Broadcast (OnError ''Not connected or invalid settings'') s
      else (case Settings of
              None \<Rightarrow> s
            | Some p \<Rightarrow> Send (ToJsonString J p) s))"

definition SendCustomEvent ::
  "FJsonSerializer \<Rightarrow> string \<Rightarrow> string \<Rightarrow> UALEJOSubsystem \<Rightarrow> UALEJOSubsystem" where
  "SendCustomEvent J EventType EventData s =
     (if \<not> IsConnected s then Broadcast (OnError ''Not connected to ALEJO bridge'') s
      else
        let MessageObj = SetStringField ''type'' EventType [];
            MessageObj = (case Deserialize J EventData of
                            Some DataObj \<Rightarrow> SetObjectField ''data'' DataObj MessageObj
                          | None \<Rightarrow> SetStringField ''data'' EventData MessageObj)
        in Send (Serialize J MessageObj) s)"

definition ParseJSON :: "FJsonSerializer \<Rightarrow> string \<Rightarrow> FJsonObject option" where
  "ParseJSON J JSONString = Deserialize J JSONString"

text \<open>
  A \<^verbatim>\<open>TryGetStringField\<close> whose result is ignored: the local string keeps its initial
  value, the empty string, when the accessor fails.
\<close>

definition StringFieldOrEmpty :: "FJsonObject \<Rightarrow> string \<Rightarrow> string" where
  "StringFieldOrEmpty obj k = (case TryGetStringField obj k of None \<Rightarrow> [] | Some v \<Rightarrow> v)"

definition HandleWebSocketMessage ::
  "FJsonSerializer \<Rightarrow> string \<Rightarrow> UALEJOSubsystem \<Rightarrow> UALEJOSubsystem" where
  "HandleWebSocketMessage J MessageString s =
     (case ParseJSON J MessageString of
        None \<Rightarrow> Broadcast (OnError ''Invalid JSON message received'') s
      | Some JsonObject \<Rightarrow>
         (case TryGetStringField JsonObject ''type'' of
            Some EventType \<Rightarrow>
              let DataObj = GetObjectField JsonObject ''data'';
                  EventData = (case DataObj of
                                 Some d \<Rightarrow> Serialize J d
                               | None \<Rightarrow> StringFieldOrEmpty JsonObject ''data'');
                  s = Broadcast (OnALEJOEvent EventType EventData) s
              in if EventType = ''resource.mode.changed''
                 then (case DataObj of
                         None \<Rightarrow> s
                       | Some d \<Rightarrow>
                          (case TryGetStringField d ''mode'' of
                             None \<Rightarrow> s
                           | Some NewMode \<Rightarrow> Broadcast (OnResourceModeChanged NewMode) s))
                 else s
          | None \<Rightarrow>
              if HasField JsonObject ''response''
              then Broadcast (OnTextProcessed (StringFieldOrEmpty JsonObject ''response'')) s
              else if HasField JsonObject ''command''
              then Broadcast (OnVoiceProcessed (StringFieldOrEmpty JsonObject ''response'')) s
              else if HasField JsonObject ''error''
              then Broadcast (OnError (StringFieldOrEmpty JsonObject ''error'')) s
              else s))"

text \<open>
  The four callbacks that \<^verbatim>\<open>ConnectToWebSocket\<close> registers on the socket. The change of
  the socket's own state that comes with an event is the module's doing; the broadcast
  is the callback's.
\<close>

datatype transport_event =
    Opened
  | ConnectionError string
  | Closed
  | Message string

definition SetSocketState :: "EWebSocketState \<Rightarrow> UALEJOSubsystem \<Rightarrow> UALEJOSubsystem" where
  "SetSocketState st s =
     (case WebSocket s of None \<Rightarrow> s | Some ws \<Rightarrow> s\<lparr>WebSocket := Some (ws\<lparr>State := st\<rparr>)\<rparr>)"

fun OnTransportEvent ::
  "FJsonSerializer \<Rightarrow> transport_event \<Rightarrow> UALEJOSubsystem \<Rightarrow> UALEJOSubsystem" where
  "OnTransportEvent J Opened s = Broadcast OnConnected (SetSocketState WsOpen s)"
| "OnTransportEvent J (ConnectionError Error) s = Broadcast (OnError Error) (SetSocketState WsClosed s)"
| "OnTransportEvent J Closed s = Broadcast OnDisconnected (SetSocketState WsClosed s)"
| "OnTransportEvent J (Message MessageString) s = HandleWebSocketMessage J MessageString s"


section \<open>Contrast and colour (ALEJOUIHelper)\<close>

record FLinearColor =
  R :: real
  G :: real
  B :: real
  A :: real

definition LinearColor :: "real \<Rightarrow> real \<Rightarrow> real \<Rightarrow> real \<Rightarrow> FLinearColor" where
  "LinearColor r g b a = \<lparr> R = r, G = g, B = b, A = a \<rparr>"

text \<open>
  \<^verbatim>\<open>GetAccessibleColorPair\<close> returns the background and the foreground colour through its
  two out-parameters; the settings pointer of the helper may be null.
\<close>

definition GetAccessibleColorPair ::
  "UALEJOAccessibilitySettings option \<Rightarrow> bool \<Rightarrow> FLinearColor \<times> FLinearColor" where
  "GetAccessibleColorPair AccessibilitySettings bIsButtonOrInteractive =
     (case AccessibilitySettings of
        None \<Rightarrow> (LinearColor 0.1 0.1 0.1 1.0, LinearColor 0.9 0.9 0.9 1.0)
      | Some p \<Rightarrow>
          if bHighContrastMode p then
            (if bIsButtonOrInteractive
             then (LinearColor 0.0 0.0 0.8 1.0, LinearColor 1.0 1.0 1.0 1.0)
             else (LinearColor 0.0 0.0 0.0 1.0, LinearColor 1.0 1.0 0.0 1.0))
          else if bColorBlindMode p then
            (if bIsButtonOrInteractive
             then (LinearColor 0.0 0.4 0.7 1.0, LinearColor 1.0 1.0 1.0 1.0)
             else (LinearColor 0.2 0.2 0.2 1.0, LinearColor 0.95 0.95 0.95 1.0))
          else
            (if bIsButtonOrInteractive
             then (LinearColor 0.2 0.2 0.8 1.0, LinearColor 1.0 1.0 1.0 1.0)
             else (LinearColor 0.1 0.1 0.1 1.0, LinearColor 0.9 0.9 0.9 1.0)))"

text \<open>
  One channel of the luminance formula. \<^verbatim>\<open>FMath::Pow\<close> is the real power \<open>powr\<close>; its base
  is positive on the branch that calls it. The machine power overflows to infinity for
  very large channels, which the real power does not: statements about the luminance
  are made for colours in gamut or for the constants of the colour table.
\<close>

definition Linearize :: "real \<Rightarrow> real" where
  "Linearize c = (if c \<le> 0.03928 then c / 12.92 else ((c + 0.055) / 1.055) powr 2.4)"

definition CalculateLuminance :: "FLinearColor \<Rightarrow> real" where
  "CalculateLuminance Color =
     0.2126 * Linearize (R Color) + 0.7152 * Linearize (G Color) + 0.0722 * Linearize (B Color)"

text \<open>
  The final division of \<^verbatim>\<open>GetContrastRatio\<close>. A zero divisor gives no number (the machine
  division yields NaN or an infinity there): the result is \<open>None\<close>.
\<close>

definition Divide :: "real \<Rightarrow> real \<Rightarrow> real option" where
  "Divide x y = (if y = 0 then None else Some (x / y))"

definition GetContrastRatio :: "FLinearColor \<Rightarrow> FLinearColor \<Rightarrow> real option" where
  "GetContrastRatio Color1 Color2 =
     (let L1 = CalculateLuminance Color1;
          L2 = CalculateLuminance Color2;
          LighterL = max L1 L2;
          DarkerL = min L1 L2
      in Divide (LighterL + 0.05) (DarkerL + 0.05))"

text \<open>
  A colour whose red, green and blue channels lie between 0 and 1. For such a colour
  every intermediate value of the luminance and of the ratio lies between 0 and 21, so
  no machine overflow can occur.
\<close>

definition InGamut :: "FLinearColor \<Rightarrow> bool" where
  "InGamut c = (0 \<le> R c \<and> R c \<le> 1 \<and> 0 \<le> G c \<and> G c \<le> 1 \<and> 0 \<le> B c \<and> B c \<le> 1)"


section \<open>Properties of the accessibility settings\<close>

subsection \<open>Reading the settings fields\<close>

lemma TryGet_update:
  assumes "\<And>q. upd (\<lambda>_. sel q) q = q"
  shows "TryGet x (\<lambda>v. upd (\<lambda>_. v)) p = upd (\<lambda>_. case_option (sel p) (\<lambda>v. v) x) p"
  by (cases x) (simp_all add: TryGet_def assms)

lemmas TryGet_fields =
  TryGet_update [of bHighContrastMode_update bHighContrastMode, simplified]
  TryGet_update [of FontScaleFactor_update FontScaleFactor, simplified]
  TryGet_update [of bColorBlindMode_update bColorBlindMode, simplified]
  TryGet_update [of ColorBlindnessType_update ColorBlindnessType, simplified]
  TryGet_update [of bScreenReaderEnabled_update bScreenReaderEnabled, simplified]
  TryGet_update [of bVisualAlternativesToAudio_update bVisualAlternativesToAudio, simplified]
  TryGet_update [of bSignLanguageEnabled_update bSignLanguageEnabled, simplified]
  TryGet_update [of SignLanguagePreference_update SignLanguagePreference, simplified]
  TryGet_update [of bCaptionsEnabled_update bCaptionsEnabled, simplified]
  TryGet_update [of CaptionScaleFactor_update CaptionScaleFactor, simplified]
  TryGet_update [of bHapticFeedbackEnabled_update bHapticFeedbackEnabled, simplified]
  TryGet_update [of InputHoldDuration_update InputHoldDuration, simplified]
  TryGet_update [of bSimplifiedGestureControls_update bSimplifiedGestureControls, simplified]
  TryGet_update [of bSimplifiedLanguage_update bSimplifiedLanguage, simplified]
  TryGet_update [of bReducedMotion_update bReducedMotion, simplified]
  TryGet_update [of bFocusAssistance_update bFocusAssistance, simplified]
  TryGet_update [of ReadingSpeedFactor_update ReadingSpeedFactor, simplified]

text \<open>The settings after the seventeen reads, as one record update.\<close>

lemma ReadSettingsFields_eq:
  "ReadSettingsFields obj p =
     p\<lparr> bHighContrastMode := case_option (bHighContrastMode p) (\<lambda>v. v) (TryGetBoolField obj ''highContrastMode''),
        FontScaleFactor := case_option (FontScaleFactor p) (\<lambda>v. v) (TryGetNumberField obj ''fontScaleFactor''),
        bColorBlindMode := case_option (bColorBlindMode p) (\<lambda>v. v) (TryGetBoolField obj ''colorBlindMode''),
        ColorBlindnessType := case_option (ColorBlindnessType p) (\<lambda>v. v) (TryGetStringField obj ''colorBlindnessType''),
        bScreenReaderEnabled := case_option (bScreenReaderEnabled p) (\<lambda>v. v) (TryGetBoolField obj ''screenReaderEnabled''),
        bVisualAlternativesToAudio := case_option (bVisualAlternativesToAudio p) (\<lambda>v. v) (TryGetBoolField obj ''visualAlternativesToAudio''),
        bSignLanguageEnabled := case_option (bSignLanguageEnabled p) (\<lambda>v. v) (TryGetBoolField obj ''signLanguageEnabled''),
        SignLanguagePreference := case_option (SignLanguagePreference p) (\<lambda>v. v) (TryGetStringField obj ''signLanguagePreference''),
        bCaptionsEnabled := case_option (bCaptionsEnabled p) (\<lambda>v. v) (TryGetBoolField obj ''captionsEnabled''),
        CaptionScaleFactor := case_option (CaptionScaleFactor p) (\<lambda>v. v) (TryGetNumberField obj ''captionScaleFactor''),
        bHapticFeedbackEnabled := case_option (bHapticFeedbackEnabled p) (\<lambda>v. v) (TryGetBoolField obj ''hapticFeedbackEnabled''),
        InputHoldDuration := case_option (InputHoldDuration p) (\<lambda>v. v) (TryGetNumberField obj ''inputHoldDuration''),
        bSimplifiedGestureControls := case_option (bSimplifiedGestureControls p) (\<lambda>v. v) (TryGetBoolField obj ''simplifiedGestureControls''),
        bSimplifiedLanguage := case_option (bSimplifiedLanguage p) (\<lambda>v. v) (TryGetBoolField obj ''simplifiedLanguage''),
        bReducedMotion := case_option (bReducedMotion p) (\<lambda>v. v) (TryGetBoolField obj ''reducedMotion''),
        bFocusAssistance := case_option (bFocusAssistance p) (\<lambda>v. v) (TryGetBoolField obj ''focusAssistance''),
        ReadingSpeedFactor := case_option (ReadingSpeedFactor p) (\<lambda>v. v) (TryGetNumberField obj ''readingSpeedFactor'') \<rparr>"
  by (simp add: ReadSettingsFields_def Let_def TryGet_fields cong del: option.case_cong_weak)

lemma absent_TryGet:
  "\<not> HasField obj k \<Longrightarrow> TryGetBoolField obj k = None"
  "\<not> HasField obj k \<Longrightarrow> TryGetNumberField obj k = None"
  "\<not> HasField obj k \<Longrightarrow> TryGetStringField obj k = None"
  by (simp_all add: HasField_def TryGetBoolField_def TryGetNumberField_def TryGetStringField_def
      split: option.splits)

lemma FromJsonString_None:
  "Deserialize J Text = None \<Longrightarrow> FromJsonString J Text p = (False, p)"
  by (simp add: FromJsonString_def)

lemma FromJsonString_Some:
  "Deserialize J Text = Some obj \<Longrightarrow> FromJsonString J Text p = (True, ReadSettingsFields obj p)"
  by (simp add: FromJsonString_def)

lemma ReadSettingsFields_absent:
  "\<not> HasField obj ''highContrastMode'' \<Longrightarrow> bHighContrastMode (ReadSettingsFields obj p) = bHighContrastMode p"
  "\<not> HasField obj ''fontScaleFactor'' \<Longrightarrow> FontScaleFactor (ReadSettingsFields obj p) = FontScaleFactor p"
  "\<not> HasField obj ''colorBlindMode'' \<Longrightarrow> bColorBlindMode (ReadSettingsFields obj p) = bColorBlindMode p"
  "\<not> HasField obj ''colorBlindnessType'' \<Longrightarrow> ColorBlindnessType (ReadSettingsFields obj p) = ColorBlindnessType p"
  "\<not> HasField obj ''screenReaderEnabled'' \<Longrightarrow> bScreenReaderEnabled (ReadSettingsFields obj p) = bScreenReaderEnabled p"
  "\<not> HasField obj ''visualAlternativesToAudio'' \<Longrightarrow> bVisualAlternativesToAudio (ReadSettingsFields obj p) = bVisualAlternativesToAudio p"
  "\<not> HasField obj ''signLanguageEnabled'' \<Longrightarrow> bSignLanguageEnabled (ReadSettingsFields obj p) = bSignLanguageEnabled p"
  "\<not> HasField obj ''signLanguagePreference'' \<Longrightarrow> SignLanguagePreference (ReadSettingsFields obj p) = SignLanguagePreference p"
  "\<not> HasField obj ''captionsEnabled'' \<Longrightarrow> bCaptionsEnabled (ReadSettingsFields obj p) = bCaptionsEnabled p"
  "\<not> HasField obj ''captionScaleFactor'' \<Longrightarrow> CaptionScaleFactor (ReadSettingsFields obj p) = CaptionScaleFactor p"
  "\<not> HasField obj ''hapticFeedbackEnabled'' \<Longrightarrow> bHapticFeedbackEnabled (ReadSettingsFields obj p) = bHapticFeedbackEnabled p"
  "\<not> HasField obj ''inputHoldDuration'' \<Longrightarrow> InputHoldDuration (ReadSettingsFields obj p) = InputHoldDuration p"
  "\<not> HasField obj ''simplifiedGestureControls'' \<Longrightarrow> bSimplifiedGestureControls (ReadSettingsFields obj p) = bSimplifiedGestureControls p"
  "\<not> HasField obj ''simplifiedLanguage'' \<Longrightarrow> bSimplifiedLanguage (ReadSettingsFields obj p) = bSimplifiedLanguage p"
  "\<not> HasField obj ''reducedMotion'' \<Longrightarrow> bReducedMotion (ReadSettingsFields obj p) = bReducedMotion p"
  "\<not> HasField obj ''focusAssistance'' \<Longrightarrow> bFocusAssistance (ReadSettingsFields obj p) = bFocusAssistance p"
  "\<not> HasField obj ''readingSpeedFactor'' \<Longrightarrow> ReadingSpeedFactor (ReadSettingsFields obj p) = ReadingSpeedFactor p"
  by (simp_all add: ReadSettingsFields_eq absent_TryGet)

lemma ReadSettingsFields_all_absent:
  assumes "list_all (\<lambda>k. \<not> HasField obj k) SettingsKeys"
  shows "ReadSettingsFields obj p = p"
  using assms by (simp add: SettingsKeys_def ReadSettingsFields_eq absent_TryGet)

lemma map_of_SettingsJsonObject:
  "map_of (SettingsJsonObject p) ''highContrastMode'' = Some (FJsonValueBoolean (bHighContrastMode p))"
  "map_of (SettingsJsonObject p) ''fontScaleFactor'' = Some (FJsonValueNumber (FontScaleFactor p))"
  "map_of (SettingsJsonObject p) ''colorBlindMode'' = Some (FJsonValueBoolean (bColorBlindMode p))"
  "map_of (SettingsJsonObject p) ''colorBlindnessType'' = Some (FJsonValueString (ColorBlindnessType p))"
  "map_of (SettingsJsonObject p) ''screenReaderEnabled'' = Some (FJsonValueBoolean (bScreenReaderEnabled p))"
  "map_of (SettingsJsonObject p) ''visualAlternativesToAudio'' = Some (FJsonValueBoolean (bVisualAlternativesToAudio p))"
  "map_of (SettingsJsonObject p) ''signLanguageEnabled'' = Some (FJsonValueBoolean (bSignLanguageEnabled p))"
  "map_of (SettingsJsonObject p) ''signLanguagePreference'' = Some (FJsonValueString (SignLanguagePreference p))"
  "map_of (SettingsJsonObject p) ''captionsEnabled'' = Some (FJsonValueBoolean (bCaptionsEnabled p))"
  "map_of (SettingsJsonObject p) ''captionScaleFactor'' = Some (FJsonValueNumber (CaptionScaleFactor p))"
  "map_of (SettingsJsonObject p) ''hapticFeedbackEnabled'' = Some (FJsonValueBoolean (bHapticFeedbackEnabled p))"
  "map_of (SettingsJsonObject p) ''inputHoldDuration'' = Some (FJsonValueNumber (InputHoldDuration p))"
  "map_of (SettingsJsonObject p) ''simplifiedGestureControls'' = Some (FJsonValueBoolean (bSimplifiedGestureControls p))"
  "map_of (SettingsJsonObject p) ''simplifiedLanguage'' = Some (FJsonValueBoolean (bSimplifiedLanguage p))"
  "map_of (SettingsJsonObject p) ''reducedMotion'' = Some (FJsonValueBoolean (bReducedMotion p))"
  "map_of (SettingsJsonObject p) ''focusAssistance'' = Some (FJsonValueBoolean (bFocusAssistance p))"
  "map_of (SettingsJsonObject p) ''readingSpeedFactor'' = Some (FJsonValueNumber (ReadingSpeedFactor p))"
  by (simp_all add: SettingsJsonObject_def Let_def SetBoolField_def SetNumberField_def
      SetStringField_def)

lemma ReadSettingsFields_SettingsJsonObject:
  assumes "map_of obj = map_of (SettingsJsonObject P)"
  shows "ReadSettingsFields obj Q = P"
  by (rule UALEJOAccessibilitySettings.equality)
     (simp_all add: ReadSettingsFields_eq TryGetBoolField_def TryGetNumberField_def
        TryGetStringField_def assms map_of_SettingsJsonObject)


subsection \<open>Numeric fields after deserialization\<close>

text \<open>
  Claim C3, as stated: after every successful \<^verbatim>\<open>FromJsonString\<close> each numeric field lies
  within its declared range. The code does not clamp: the payload
  \<^verbatim>\<open>{"fontScaleFactor":10}\<close> is read successfully into fresh settings and leaves the font
  scale factor at 10, outside the range from 0.5 to 3.
\<close>

theorem FromJsonString_clamps_counterexample:
  \<open>fst (FromJsonString
          (table_serializer
             [(''{"fontScaleFactor":10}'', [(''fontScaleFactor'', FJsonValueNumber 10)])])
          ''{"fontScaleFactor":10}'' NewSettings) \<and>
    \<not> in_declared_ranges (snd (FromJsonString
          (table_serializer
             [(''{"fontScaleFactor":10}'', [(''fontScaleFactor'', FJsonValueNumber 10)])])
          ''{"fontScaleFactor":10}'' NewSettings))\<close>
  by (simp add: FromJsonString_def table_serializer_def ReadSettingsFields_eq
      TryGetNumberField_def in_declared_ranges_def)

text \<open>
  Claim C3, amended: a successful \<^verbatim>\<open>FromJsonString\<close> performs no clamping. Each of the four
  numeric fields then holds exactly the number that its key carries in the payload, and
  its value from before the call when the key carries no number.
\<close>

theorem FromJsonString_numeric_fields_unclamped:
  assumes "Deserialize J Text = Some obj"
  shows "fst (FromJsonString J Text p) \<and>
         FontScaleFactor (snd (FromJsonString J Text p)) =
           (case TryGetNumberField obj ''fontScaleFactor'' of
              None \<Rightarrow> FontScaleFactor p | Some v \<Rightarrow> v) \<and>
         CaptionScaleFactor (snd (FromJsonString J Text p)) =
           (case TryGetNumberField obj ''captionScaleFactor'' of
              None \<Rightarrow> CaptionScaleFactor p | Some v \<Rightarrow> v) \<and>
         InputHoldDuration (snd (FromJsonString J Text p)) =
           (case TryGetNumberField obj ''inputHoldDuration'' of
              None \<Rightarrow> InputHoldDuration p | Some v \<Rightarrow> v) \<and>
         ReadingSpeedFactor (snd (FromJsonString J Text p)) =
           (case TryGetNumberField obj ''readingSpeedFactor'' of
              None \<Rightarrow> ReadingSpeedFactor p | Some v \<Rightarrow> v)"
  using assms by (simp add: FromJsonString_Some ReadSettingsFields_eq)

theorem FromJsonString_numeric_fields_unclamped_witness:
  \<open>Deserialize
      (table_serializer
         [(''{"fontScaleFactor":10}'', [(''fontScaleFactor'', FJsonValueNumber 10)])])
      ''{"fontScaleFactor":10}'' = Some [(''fontScaleFactor'', FJsonValueNumber 10)] \<and>
    FontScaleFactor (snd (FromJsonString
      (table_serializer
         [(''{"fontScaleFactor":10}'', [(''fontScaleFactor'', FJsonValueNumber 10)])])
      ''{"fontScaleFactor":10}'' NewSettings)) = 10 \<and>
    ReadingSpeedFactor (snd (FromJsonString
      (table_serializer
         [(''{"fontScaleFactor":10}'', [(''fontScaleFactor'', FJsonValueNumber 10)])])
      ''{"fontScaleFactor":10}'' NewSettings)) = 1\<close>
proof -
  let ?obj = "[(''fontScaleFactor'', FJsonValueNumber 10)]"
  let ?J = \<open>table_serializer [(''{"fontScaleFactor":10}'', ?obj)]\<close>
  have h: \<open>Deserialize ?J ''{"fontScaleFactor":10}'' = Some ?obj\<close>
    by (simp add: table_serializer_def)
  show ?thesis
    using h FromJsonString_numeric_fields_unclamped [OF h, of NewSettings]
    by (simp add: TryGetNumberField_def NewSettings_def)
qed


subsection \<open>Round trip\<close>

text \<open>
  Claim C4: reading back the text that \<^verbatim>\<open>ToJsonString\<close> writes for settings \<open>P\<close> yields
  \<open>P\<close> in every field, whatever the receiving settings object held before. The only
  assumption is on the engine: its reader reads back the object that \<^verbatim>\<open>ToJsonString\<close>
  hands to its writer.
\<close>

theorem ToJsonString_FromJsonString_roundtrip:
  assumes "ReadsBack J (SettingsJsonObject P)"
  shows "FromJsonString J (ToJsonString J P) Q = (True, P)"
proof -
  from assms obtain obj
    where d: "Deserialize J (Serialize J (SettingsJsonObject P)) = Some obj"
      and m: "map_of obj = map_of (SettingsJsonObject P)"
    by (auto simp add: ReadsBack_def split: option.splits)
  from d have "Deserialize J (ToJsonString J P) = Some obj"
    by (simp add: ToJsonString_def)
  then have "FromJsonString J (ToJsonString J P) Q = (True, ReadSettingsFields obj Q)"
    by (rule FromJsonString_Some)
  with m show ?thesis
    by (simp add: ReadSettingsFields_SettingsJsonObject)
qed

lemma SettingsJsonObject_TestSettings: "SettingsJsonObject TestSettings = TestSettingsObject"
  by (simp add: SettingsJsonObject_def Let_def SetBoolField_def SetNumberField_def
      SetStringField_def TestSettings_def NewSettings_def TestSettingsObject_def)

theorem ToJsonString_FromJsonString_roundtrip_witness:
  "ReadsBack (table_serializer [(TestSettingsJson, TestSettingsObject)])
     (SettingsJsonObject TestSettings) \<and>
   ToJsonString (table_serializer [(TestSettingsJson, TestSettingsObject)]) TestSettings
     = TestSettingsJson \<and>
   FromJsonString (table_serializer [(TestSettingsJson, TestSettingsObject)])
     (ToJsonString (table_serializer [(TestSettingsJson, TestSettingsObject)]) TestSettings)
     NewSettings = (True, TestSettings)"
proof -
  let ?J = "table_serializer [(TestSettingsJson, TestSettingsObject)]"
  have h: "ReadsBack ?J (SettingsJsonObject TestSettings)"
    by (simp add: ReadsBack_def table_serializer_def SettingsJsonObject_TestSettings)
  have t: "ToJsonString ?J TestSettings = TestSettingsJson"
    by (simp add: ToJsonString_def table_serializer_def SettingsJsonObject_TestSettings)
  from h t ToJsonString_FromJsonString_roundtrip [OF h, of NewSettings]
  show ?thesis by simp
qed


subsection \<open>Unparseable input and missing keys\<close>

text \<open>
  Claim C5: on text that the reader cannot parse as an object, \<^verbatim>\<open>FromJsonString\<close> returns
  false and leaves the settings as they were. On a parsed object it returns true, and
  every field whose key the object lacks keeps its value from before the call; when all
  keys are missing the settings are unchanged.
\<close>

theorem FromJsonString_unparseable_or_missing_keys:
  "(Deserialize J Text = None \<longrightarrow> FromJsonString J Text p = (False, p)) \<and>
   (\<forall>obj. Deserialize J Text = Some obj \<longrightarrow>
      fst (FromJsonString J Text p) \<and>
      (list_all (\<lambda>k. \<not> HasField obj k) SettingsKeys \<longrightarrow>
         snd (FromJsonString J Text p) = p) \<and>
      (\<not> HasField obj ''highContrastMode'' \<longrightarrow>
         bHighContrastMode (snd (FromJsonString J Text p)) = bHighContrastMode p) \<and>
      (\<not> HasField obj ''fontScaleFactor'' \<longrightarrow>
         FontScaleFactor (snd (FromJsonString J Text p)) = FontScaleFactor p) \<and>
      (\<not> HasField obj ''colorBlindMode'' \<longrightarrow>
         bColorBlindMode (snd (FromJsonString J Text p)) = bColorBlindMode p) \<and>
      (\<not> HasField obj ''colorBlindnessType'' \<longrightarrow>
         ColorBlindnessType (snd (FromJsonString J Text p)) = ColorBlindnessType p) \<and>
      (\<not> HasField obj ''screenReaderEnabled'' \<longrightarrow>
         bScreenReaderEnabled (snd (FromJsonString J Text p)) = bScreenReaderEnabled p) \<and>
      (\<not> HasField obj ''visualAlternativesToAudio'' \<longrightarrow>
         bVisualAlternativesToAudio (snd (FromJsonString J Text p)) = bVisualAlternativesToAudio p) \<and>
      (\<not> HasField obj ''signLanguageEnabled'' \<longrightarrow>
         bSignLanguageEnabled (snd (FromJsonString J Text p)) = bSignLanguageEnabled p) \<and>
      (\<not> HasField obj ''signLanguagePreference'' \<longrightarrow>
         SignLanguagePreference (snd (FromJsonString J Text p)) = SignLanguagePreference p) \<and>
      (\<not> HasField obj ''captionsEnabled'' \<longrightarrow>
         bCaptionsEnabled (snd (FromJsonString J Text p)) = bCaptionsEnabled p) \<and>
      (\<not> HasField obj ''captionScaleFactor'' \<longrightarrow>
         CaptionScaleFactor (snd (FromJsonString J Text p)) = CaptionScaleFactor p) \<and>
      (\<not> HasField obj ''hapticFeedbackEnabled'' \<longrightarrow>
         bHapticFeedbackEnabled (snd (FromJsonString J Text p)) = bHapticFeedbackEnabled p) \<and>
      (\<not> HasField obj ''inputHoldDuration'' \<longrightarrow>
         InputHoldDuration (snd (FromJsonString J Text p)) = InputHoldDuration p) \<and>
      (\<not> HasField obj ''simplifiedGestureControls'' \<longrightarrow>
         bSimplifiedGestureControls (snd (FromJsonString J Text p)) = bSimplifiedGestureControls p) \<and>
      (\<not> HasField obj ''simplifiedLanguage'' \<longrightarrow>
         bSimplifiedLanguage (snd (FromJsonString J Text p)) = bSimplifiedLanguage p) \<and>
      (\<not> HasField obj ''reducedMotion'' \<longrightarrow>
         bReducedMotion (snd (FromJsonString J Text p)) = bReducedMotion p) \<and>
      (\<not> HasField obj ''focusAssistance'' \<longrightarrow>
         bFocusAssistance (snd (FromJsonString J Text p)) = bFocusAssistance p) \<and>
      (\<not> HasField obj ''readingSpeedFactor'' \<longrightarrow>
         ReadingSpeedFactor (snd (FromJsonString J Text p)) = ReadingSpeedFactor p))"
  by (simp add: FromJsonString_None FromJsonString_Some ReadSettingsFields_absent
      ReadSettingsFields_all_absent)

theorem FromJsonString_unparseable_or_missing_keys_witness:
  \<open>FromJsonString (table_serializer [(''{}'', [])]) ''not json'' TestSettings
       = (False, TestSettings) \<and>
    FromJsonString (table_serializer [(''{}'', [])]) ''{}'' TestSettings
       = (True, TestSettings)\<close>
proof -
  let ?J = \<open>table_serializer [(''{}'', [])]\<close>
  have n: "Deserialize ?J ''not json'' = None" and e: "Deserialize ?J ''{}'' = Some []"
    by (simp_all add: table_serializer_def)
  have a: "list_all (\<lambda>k. \<not> HasField [] k) SettingsKeys"
    by (simp add: SettingsKeys_def HasField_def)
  from FromJsonString_unparseable_or_missing_keys [of ?J "''not json''" TestSettings] n
  have 1: "FromJsonString ?J ''not json'' TestSettings = (False, TestSettings)"
    by blast
  from FromJsonString_unparseable_or_missing_keys [of ?J "''{}''" TestSettings] e a
  have 2: "fst (FromJsonString ?J ''{}'' TestSettings) \<and>
           snd (FromJsonString ?J ''{}'' TestSettings) = TestSettings"
    by blast
  from 1 2 show ?thesis by (simp add: prod_eq_iff)
qed


section \<open>Properties of the bridge connection\<close>

subsection \<open>Classification of inbound frames\<close>

text \<open>
  Claim C1 says that a frame with both a \<^verbatim>\<open>command\<close> and a \<^verbatim>\<open>response\<close> key (and no
  \<^verbatim>\<open>type\<close>) is dispatched as a voice result carrying the response. The handler tests for
  \<^verbatim>\<open>response\<close> before it tests for \<^verbatim>\<open>command\<close>: the frame
  \<^verbatim>\<open>{"response":"hi","command":"go"}\<close> produces one text result \<^verbatim>\<open>hi\<close> and no voice
  result.
\<close>

theorem HandleWebSocketMessage_command_and_response:
  \<open>HandleWebSocketMessage
      (table_serializer
         [(''{"response":"hi","command":"go"}'',
           [(''response'', FJsonValueString ''hi''), (''command'', FJsonValueString ''go'')])])
      ''{"response":"hi","command":"go"}'' Initial
    = Initial\<lparr>Broadcasts := [OnTextProcessed ''hi'']\<rparr>\<close>
  by (simp add: HandleWebSocketMessage_def ParseJSON_def table_serializer_def
      TryGetStringField_def HasField_def StringFieldOrEmpty_def Broadcast_def Initial_def)

text \<open>
  The voice branch reads its payload from the \<^verbatim>\<open>response\<close> key, yet it is reached only
  when that key is absent: whenever a frame without a \<^verbatim>\<open>type\<close> string is dispatched as a
  voice result, the payload is the empty string.
\<close>

lemma voice_result_payload_empty:
  assumes "ParseJSON J MessageString = Some obj"
    and "TryGetStringField obj ''type'' = None"
    and "Broadcasts (HandleWebSocketMessage J MessageString s)
           = Broadcasts s @ [OnVoiceProcessed v]"
  shows "v = []"
  using assms
  by (auto simp add: HandleWebSocketMessage_def Broadcast_def StringFieldOrEmpty_def
      absent_TryGet split: if_splits)

lemma voice_result_payload_empty_example:
  \<open>HandleWebSocketMessage
      (table_serializer [(''{"command":"go"}'', [(''command'', FJsonValueString ''go'')])])
      ''{"command":"go"}'' Initial
    = Initial\<lparr>Broadcasts := [OnVoiceProcessed []]\<rparr>\<close>
  by (simp add: HandleWebSocketMessage_def ParseJSON_def table_serializer_def
      TryGetStringField_def HasField_def StringFieldOrEmpty_def Broadcast_def Initial_def)

text \<open>
  Claim C9: the frame \<^verbatim>\<open>{"type":"resource.mode.changed","data":{"mode":"low"}}\<close> is
  dispatched as a generic event of that type, whose data is the serialized data object,
  followed by a resource-mode notification carrying \<^verbatim>\<open>low\<close>.
\<close>

theorem HandleWebSocketMessage_resource_mode_changed:
  assumes "Deserialize J MessageString =
             Some [(''type'', FJsonValueString ''resource.mode.changed''),
                   (''data'', FJsonValueObject [(''mode'', FJsonValueString ''low'')])]"
  shows "HandleWebSocketMessage J MessageString s =
           s\<lparr>Broadcasts := Broadcasts s @
              [OnALEJOEvent ''resource.mode.changed''
                 (Serialize J [(''mode'', FJsonValueString ''low'')]),
               OnResourceModeChanged ''low'']\<rparr>"
  using assms
  by (simp add: HandleWebSocketMessage_def ParseJSON_def TryGetStringField_def
      GetObjectField_def Broadcast_def Let_def)

theorem HandleWebSocketMessage_resource_mode_changed_witness:
  \<open>HandleWebSocketMessage
      (table_serializer
         [(''{"type":"resource.mode.changed","data":{"mode":"low"}}'',
           [(''type'', FJsonValueString ''resource.mode.changed''),
            (''data'', FJsonValueObject [(''mode'', FJsonValueString ''low'')])]),
          (''{"mode":"low"}'', [(''mode'', FJsonValueString ''low'')])])
      ''{"type":"resource.mode.changed","data":{"mode":"low"}}'' Initial
    = Initial\<lparr>Broadcasts :=
        [OnALEJOEvent ''resource.mode.changed'' ''{"mode":"low"}'',
         OnResourceModeChanged ''low'']\<rparr>\<close>
proof -
  let ?J = \<open>table_serializer
         [(''{"type":"resource.mode.changed","data":{"mode":"low"}}'',
           [(''type'', FJsonValueString ''resource.mode.changed''),
            (''data'', FJsonValueObject [(''mode'', FJsonValueString ''low'')])]),
          (''{"mode":"low"}'', [(''mode'', FJsonValueString ''low'')])]\<close>
  have h: \<open>Deserialize ?J ''{"type":"resource.mode.changed","data":{"mode":"low"}}'' =
             Some [(''type'', FJsonValueString ''resource.mode.changed''),
                   (''data'', FJsonValueObject [(''mode'', FJsonValueString ''low'')])]\<close>
    by (simp add: table_serializer_def)
  have w: \<open>Serialize ?J [(''mode'', FJsonValueString ''low'')] = ''{"mode":"low"}''\<close>
    by (simp add: table_serializer_def)
  show ?thesis
    using HandleWebSocketMessage_resource_mode_changed [OF h, of Initial] w
    by (simp add: Initial_def)
qed


subsection \<open>Connecting\<close>

text \<open>
  Claim C2, as stated: \<^verbatim>\<open>Connect\<close> is a no-op whenever the connection is not disconnected,
  so also while it is connecting. The guard of \<^verbatim>\<open>Connect\<close> is \<^verbatim>\<open>IsConnected\<close>, which is
  false for a socket that has not opened yet: a second \<^verbatim>\<open>Connect\<close> right after the first
  creates and starts a second socket.
\<close>

theorem Connect_while_connecting_counterexample:
  "WebSocket (Connect ''ws://localhost:3030'' Initial)
     = Some \<lparr> Url = ''ws://localhost:3030'', State = WsConnecting \<rparr> \<and>
   Connect ''ws://localhost:3030'' (Connect ''ws://localhost:3030'' Initial)
     \<noteq> Connect ''ws://localhost:3030'' Initial \<and>
   Transport (Connect ''ws://localhost:3030'' (Connect ''ws://localhost:3030'' Initial))
     = [CreateWebSocket ''ws://localhost:3030'', SocketConnect,
        CreateWebSocket ''ws://localhost:3030'', SocketConnect]"
  by (simp add: Connect_def ConnectToWebSocket_def Initial_def IsConnected_def)

text \<open>
  Claim C2, amended: \<^verbatim>\<open>Connect\<close> is a no-op exactly while the held socket is connected.
  In every other state, the connecting one included, it creates a socket, starts its
  connection attempt and makes it the held socket; it broadcasts nothing.
\<close>

theorem Connect_noop_only_when_connected:
  "(IsConnected s \<longrightarrow> Connect ServerURL s = s) \<and>
   (\<not> IsConnected s \<longrightarrow>
      Transport (Connect ServerURL s) = Transport s @ [CreateWebSocket ServerURL, SocketConnect] \<and>
      WebSocket (Connect ServerURL s) = Some \<lparr> Url = ServerURL, State = WsConnecting \<rparr> \<and>
      Broadcasts (Connect ServerURL s) = Broadcasts s)"
  by (simp add: Connect_def ConnectToWebSocket_def)

theorem Connect_noop_only_when_connected_witness:
  "IsConnected
     (OnTransportEvent (table_serializer []) Opened (Connect ''ws://localhost:3030'' Initial)) \<and>
   Connect ''ws://localhost:3030''
     (OnTransportEvent (table_serializer []) Opened (Connect ''ws://localhost:3030'' Initial))
     = OnTransportEvent (table_serializer []) Opened (Connect ''ws://localhost:3030'' Initial) \<and>
   \<not> IsConnected Initial \<and>
   Transport (Connect ''ws://localhost:3030'' Initial)
     = [CreateWebSocket ''ws://localhost:3030'', SocketConnect]"
proof -
  let ?s = "OnTransportEvent (table_serializer []) Opened (Connect ''ws://localhost:3030'' Initial)"
  have c: "IsConnected ?s"
    by (simp add: IsConnected_def Connect_def ConnectToWebSocket_def Initial_def
        SetSocketState_def Broadcast_def)
  have n: "\<not> IsConnected Initial"
    by (simp add: IsConnected_def Initial_def)
  from Connect_noop_only_when_connected [of ?s "''ws://localhost:3030''"] c
  have 1: "Connect ''ws://localhost:3030'' ?s = ?s" by blast
  from Connect_noop_only_when_connected [of Initial "''ws://localhost:3030''"] n
  have 2: "Transport (Connect ''ws://localhost:3030'' Initial)
             = Transport Initial @ [CreateWebSocket ''ws://localhost:3030'', SocketConnect]"
    by blast
  from c n 1 2 show ?thesis by (simp add: Initial_def)
qed


subsection \<open>Sending while not connected\<close>

text \<open>
  Claim C6: while the subsystem is not connected, \<^verbatim>\<open>ProcessText\<close> and
  \<^verbatim>\<open>ProcessVoiceCommand\<close> do nothing but broadcast one error,
  \<^verbatim>\<open>Not connected to ALEJO bridge\<close>: nothing is written to the transport, the held socket
  is unchanged, and the state has no place where the message could be queued.
\<close>

theorem send_while_not_connected:
  assumes "\<not> IsConnected s"
  shows "ProcessText J Text Context s = Broadcast (OnError ''Not connected to ALEJO bridge'') s \<and>
         ProcessVoiceCommand J Command Context s
           = Broadcast (OnError ''Not connected to ALEJO bridge'') s \<and>
         Broadcasts (Broadcast (OnError ''Not connected to ALEJO bridge'') s)
           = Broadcasts s @ [OnError ''Not connected to ALEJO bridge''] \<and>
         Transport (Broadcast (OnError ''Not connected to ALEJO bridge'') s) = Transport s \<and>
         WebSocket (Broadcast (OnError ''Not connected to ALEJO bridge'') s) = WebSocket s"
  using assms by (simp add: ProcessText_def ProcessVoiceCommand_def Broadcast_def)

theorem send_while_not_connected_witness:
  "\<not> IsConnected Initial \<and>
   ProcessText (table_serializer []) ''hello'' [] Initial
     = \<lparr> WebSocket = None, Transport = [],
         Broadcasts = [OnError ''Not connected to ALEJO bridge''] \<rparr> \<and>
   ProcessVoiceCommand (table_serializer []) ''go'' [] Initial
     = \<lparr> WebSocket = None, Transport = [],
         Broadcasts = [OnError ''Not connected to ALEJO bridge''] \<rparr>"
proof -
  have h: "\<not> IsConnected Initial"
    by (simp add: IsConnected_def Initial_def)
  show ?thesis
    using h send_while_not_connected [OF h, of "table_serializer []" "''hello''" "[]" "''go''"]
    by (simp add: Broadcast_def Initial_def)
qed

text \<open>
  Claim C10: with a null settings pointer, \<^verbatim>\<open>UpdateAccessibilitySettings\<close> broadcasts one
  error and writes nothing to the transport, in every state of the connection.
\<close>

theorem UpdateAccessibilitySettings_null:
  "UpdateAccessibilitySettings J None s
     = Broadcast (OnError ''Not connected or invalid settings'') s \<and>
   Broadcasts (UpdateAccessibilitySettings J None s)
     = Broadcasts s @ [OnError ''Not connected or invalid settings''] \<and>
   Transport (UpdateAccessibilitySettings J None s) = Transport s \<and>
   WebSocket (UpdateAccessibilitySettings J None s) = WebSocket s"
  by (simp add: UpdateAccessibilitySettings_def Broadcast_def)

text \<open>An instance in the connected state: the error is broadcast and nothing is sent.\<close>

theorem UpdateAccessibilitySettings_null_witness:
  "IsConnected
     (OnTransportEvent (table_serializer []) Opened (Connect ''ws://localhost:3030'' Initial)) \<and>
   UpdateAccessibilitySettings (table_serializer []) None
     (OnTransportEvent (table_serializer []) Opened (Connect ''ws://localhost:3030'' Initial))
     = \<lparr> WebSocket = Some \<lparr> Url = ''ws://localhost:3030'', State = WsOpen \<rparr>,
         Transport = [CreateWebSocket ''ws://localhost:3030'', SocketConnect],
         Broadcasts = [OnConnected, OnError ''Not connected or invalid settings''] \<rparr>"
proof -
  let ?s = "OnTransportEvent (table_serializer []) Opened (Connect ''ws://localhost:3030'' Initial)"
  have c: "IsConnected ?s"
    by (simp add: IsConnected_def Connect_def ConnectToWebSocket_def Initial_def
        SetSocketState_def Broadcast_def)
  show ?thesis
    using c UpdateAccessibilitySettings_null [of "table_serializer []" ?s]
    by (simp add: Broadcast_def Connect_def ConnectToWebSocket_def Initial_def
        SetSocketState_def IsConnected_def)
qed


section \<open>Properties of the contrast computation\<close>

subsection \<open>Bounds on the luminance of the table's colours\<close>

lemma powr_24_upper:
  assumes "0 \<le> (x::real)" "x \<le> 1"
  shows "x powr 2.4 \<le> x\<^sup>2"
proof -
  have "x powr 2.4 \<le> x powr 2"
    using assms by (intro powr_mono') simp_all
  then show ?thesis using assms by simp
qed

lemma powr_24_lower:
  assumes "0 \<le> (x::real)" "x \<le> 1"
  shows "x ^ 3 \<le> x powr 2.4"
proof -
  have "x powr 3 \<le> x powr 2.4"
    using assms by (intro powr_mono') simp_all
  then show ?thesis using assms by simp
qed

lemma Linearize_0: "Linearize 0 = 0"
  by (simp add: Linearize_def)

lemma Linearize_1: "Linearize 1 = 1"
  by (simp add: Linearize_def)

lemma Linearize_nonneg: "0 \<le> c \<Longrightarrow> 0 \<le> Linearize c"
  by (simp add: Linearize_def)

lemma Linearize_08: "Linearize 0.8 \<le> 0.66"
proof -
  have "Linearize 0.8 = ((0.8 + 0.055) / 1.055) powr 2.4"
    by (simp add: Linearize_def)
  also have "\<dots> \<le> ((0.8 + 0.055) / 1.055)\<^sup>2"
    by (rule powr_24_upper) simp_all
  also have "\<dots> \<le> 0.66"
    by (simp add: power2_eq_square)
  finally show ?thesis .
qed

lemma Linearize_02: "Linearize 0.2 \<le> 0.06"
proof -
  have "Linearize 0.2 = ((0.2 + 0.055) / 1.055) powr 2.4"
    by (simp add: Linearize_def)
  also have "\<dots> \<le> ((0.2 + 0.055) / 1.055)\<^sup>2"
    by (rule powr_24_upper) simp_all
  also have "\<dots> \<le> 0.06"
    by (simp add: power2_eq_square)
  finally show ?thesis .
qed

lemma Linearize_01: "Linearize 0.1 \<le> 0.03"
proof -
  have "Linearize 0.1 = ((0.1 + 0.055) / 1.055) powr 2.4"
    by (simp add: Linearize_def)
  also have "\<dots> \<le> ((0.1 + 0.055) / 1.055)\<^sup>2"
    by (rule powr_24_upper) simp_all
  also have "\<dots> \<le> 0.03"
    by (simp add: power2_eq_square)
  finally show ?thesis .
qed

lemma Linearize_09: "0.7 \<le> Linearize 0.9"
proof -
  have "(0.7::real) \<le> ((0.9 + 0.055) / 1.055) ^ 3"
    by (simp add: power3_eq_cube)
  also have "\<dots> \<le> ((0.9 + 0.055) / 1.055) powr 2.4"
    by (rule powr_24_lower) simp_all
  also have "\<dots> = Linearize 0.9"
    by (simp add: Linearize_def)
  finally show ?thesis .
qed

lemma GetContrastRatio_ge:
  assumes "0 \<le> CalculateLuminance bg"
    and "CalculateLuminance bg \<le> CalculateLuminance fg"
    and "k * (CalculateLuminance bg + 0.05) \<le> CalculateLuminance fg + 0.05"
  shows "\<exists>r. GetContrastRatio bg fg = Some r \<and> k \<le> r"
proof -
  let ?d = "CalculateLuminance bg" and ?l = "CalculateLuminance fg"
  have pos: "0 < ?d + 0.05" using assms(1) by simp
  have "GetContrastRatio bg fg = Some ((?l + 0.05) / (?d + 0.05))"
    using assms(2) pos by (simp add: GetContrastRatio_def Let_def Divide_def max_def min_def)
  moreover have "k \<le> (?l + 0.05) / (?d + 0.05)"
    using assms(3) pos by (simp add: pos_le_divide_eq)
  ultimately show ?thesis by simp
qed

lemma lum_black: "CalculateLuminance (LinearColor 0.0 0.0 0.0 1.0) = 0"
  by (simp add: CalculateLuminance_def LinearColor_def Linearize_0)

lemma lum_white: "CalculateLuminance (LinearColor 1.0 1.0 1.0 1.0) = 1"
  by (simp add: CalculateLuminance_def LinearColor_def Linearize_1)

lemma lum_yellow: "CalculateLuminance (LinearColor 1.0 1.0 0.0 1.0) = 0.9278"
  by (simp add: CalculateLuminance_def LinearColor_def Linearize_0 Linearize_1)

lemma lum_dark_blue: "CalculateLuminance (LinearColor 0.0 0.0 0.8 1.0) = 0.0722 * Linearize 0.8"
  by (simp add: CalculateLuminance_def LinearColor_def Linearize_0)

lemma lum_blue:
  "CalculateLuminance (LinearColor 0.2 0.2 0.8 1.0) = 0.9278 * Linearize 0.2 + 0.0722 * Linearize 0.8"
  by (simp add: CalculateLuminance_def LinearColor_def)

lemma lum_dark_gray: "CalculateLuminance (LinearColor 0.1 0.1 0.1 1.0) = Linearize 0.1"
  by (simp add: CalculateLuminance_def LinearColor_def)

lemma lum_light_gray: "CalculateLuminance (LinearColor 0.9 0.9 0.9 1.0) = Linearize 0.9"
  by (simp add: CalculateLuminance_def LinearColor_def)

lemma high_contrast_interactive:
  "\<exists>r. GetContrastRatio (LinearColor 0.0 0.0 0.8 1.0) (LinearColor 1.0 1.0 1.0 1.0) = Some r \<and> 7 \<le> r"
  by (rule GetContrastRatio_ge; simp only: lum_dark_blue lum_white;
      use Linearize_08 Linearize_nonneg [of "0.8"] in simp)

lemma high_contrast_static:
  "\<exists>r. GetContrastRatio (LinearColor 0.0 0.0 0.0 1.0) (LinearColor 1.0 1.0 0.0 1.0) = Some r \<and> 7 \<le> r"
  by (rule GetContrastRatio_ge; simp only: lum_black lum_yellow; simp)

lemma standard_interactive:
  "\<exists>r. GetContrastRatio (LinearColor 0.2 0.2 0.8 1.0) (LinearColor 1.0 1.0 1.0 1.0) = Some r \<and> 4.5 \<le> r"
  by (rule GetContrastRatio_ge; simp only: lum_blue lum_white;
      use Linearize_08 Linearize_nonneg [of "0.8"] Linearize_02 Linearize_nonneg [of "0.2"] in simp)

lemma standard_static:
  "\<exists>r. GetContrastRatio (LinearColor 0.1 0.1 0.1 1.0) (LinearColor 0.9 0.9 0.9 1.0) = Some r \<and> 4.5 \<le> r"
  by (rule GetContrastRatio_ge; simp only: lum_dark_gray lum_light_gray;
      use Linearize_01 Linearize_nonneg [of "0.1"] Linearize_09 in simp)


lemma Linearize_le_1: "0 \<le> c \<Longrightarrow> c \<le> 1 \<Longrightarrow> Linearize c \<le> 1"
proof -
  assume c: "0 \<le> c" "c \<le> 1"
  show ?thesis
  proof (cases "c \<le> 0.03928")
    case True
    then show ?thesis using c by (simp add: Linearize_def)
  next
    case False
    have b: "0 \<le> (c + 0.055) / 1.055" "(c + 0.055) / 1.055 \<le> 1"
      using c by simp_all
    have "((c + 0.055) / 1.055) powr 2.4 \<le> ((c + 0.055) / 1.055)\<^sup>2"
      using b by (rule powr_24_upper)
    also have "\<dots> \<le> 1"
      using b by (simp add: power_le_one)
    finally show ?thesis using False by (simp add: Linearize_def)
  qed
qed

lemma InGamut_luminance:
  assumes "InGamut c"
  shows "0 \<le> CalculateLuminance c \<and> CalculateLuminance c \<le> 1"
proof -
  from assms have r: "0 \<le> Linearize (R c)" "Linearize (R c) \<le> 1"
    and g: "0 \<le> Linearize (G c)" "Linearize (G c) \<le> 1"
    and b: "0 \<le> Linearize (B c)" "Linearize (B c) \<le> 1"
    by (simp_all add: InGamut_def Linearize_nonneg Linearize_le_1)
  then show ?thesis
    by (simp add: CalculateLuminance_def)
qed


subsection \<open>Contrast of the accessible colour pairs\<close>

text \<open>
  Claim C7: with high contrast mode set, whatever the colour-blind flag and the
  interactive flag, \<^verbatim>\<open>GetAccessibleColorPair\<close> returns the high contrast pair, and
  \<^verbatim>\<open>GetContrastRatio\<close> of that pair is at least 7. With both modes off the ratio of the
  returned pair is at least 4.5.
\<close>

theorem GetAccessibleColorPair_contrast:
  "(bHighContrastMode p \<longrightarrow>
      GetAccessibleColorPair (Some p) bIsButtonOrInteractive =
        (if bIsButtonOrInteractive
         then (LinearColor 0.0 0.0 0.8 1.0, LinearColor 1.0 1.0 1.0 1.0)
         else (LinearColor 0.0 0.0 0.0 1.0, LinearColor 1.0 1.0 0.0 1.0)) \<and>
      (\<exists>r. GetContrastRatio (fst (GetAccessibleColorPair (Some p) bIsButtonOrInteractive))
                            (snd (GetAccessibleColorPair (Some p) bIsButtonOrInteractive)) = Some r
           \<and> 7.0 \<le> r)) \<and>
   (\<not> bHighContrastMode p \<and> \<not> bColorBlindMode p \<longrightarrow>
      (\<exists>r. GetContrastRatio (fst (GetAccessibleColorPair (Some p) bIsButtonOrInteractive))
                            (snd (GetAccessibleColorPair (Some p) bIsButtonOrInteractive)) = Some r
           \<and> 4.5 \<le> r))"
  using high_contrast_interactive high_contrast_static standard_interactive standard_static
  by (simp add: GetAccessibleColorPair_def)

theorem GetAccessibleColorPair_contrast_witness:
  "(\<exists>r. GetContrastRatio (fst (GetAccessibleColorPair (Some TestSettings) True))
                         (snd (GetAccessibleColorPair (Some TestSettings) True)) = Some r
        \<and> 7.0 \<le> r) \<and>
   (\<exists>r. GetContrastRatio (fst (GetAccessibleColorPair (Some NewSettings) False))
                         (snd (GetAccessibleColorPair (Some NewSettings) False)) = Some r
        \<and> 4.5 \<le> r)"
proof -
  have h: "bHighContrastMode TestSettings"
    by (simp add: TestSettings_def)
  have n: "\<not> bHighContrastMode NewSettings \<and> \<not> bColorBlindMode NewSettings"
    by (simp add: NewSettings_def)
  from GetAccessibleColorPair_contrast [of TestSettings True] h
  have 1: "\<exists>r. GetContrastRatio (fst (GetAccessibleColorPair (Some TestSettings) True))
                         (snd (GetAccessibleColorPair (Some TestSettings) True)) = Some r
        \<and> 7.0 \<le> r"
    by blast
  from GetAccessibleColorPair_contrast [of NewSettings False] n
  have 2: "\<exists>r. GetContrastRatio (fst (GetAccessibleColorPair (Some NewSettings) False))
                         (snd (GetAccessibleColorPair (Some NewSettings) False)) = Some r
        \<and> 4.5 \<le> r"
    by blast
  from 1 2 show ?thesis by blast
qed


subsection \<open>Laws of the contrast ratio\<close>

text \<open>
  Claim C8, as stated: the contrast ratio of every colour with itself is 1. A colour of
  luminance \<open>-0.05\<close> makes the divisor zero: for the colour with the three channels at
  \<open>-0.646\<close> the quotient is 0/0 and the result is no number.
\<close>

theorem GetContrastRatio_self_counterexample:
  "GetContrastRatio (LinearColor (-0.646) (-0.646) (-0.646) 1.0)
                    (LinearColor (-0.646) (-0.646) (-0.646) 1.0) = None"
  by (simp add: GetContrastRatio_def Let_def Divide_def CalculateLuminance_def LinearColor_def
      Linearize_def)

text \<open>
  Claim C8, amended: for all colours \<open>a\<close> and \<open>b\<close> in gamut (channels between 0 and 1),
  the contrast ratio of \<open>a\<close> with itself is 1 and the ratio of \<open>a\<close> and \<open>b\<close> is the same
  number in either order; the ratio of black and white is within 0.1 of 21.
\<close>

theorem GetContrastRatio_laws:
  assumes "InGamut a" and "InGamut b"
  shows "GetContrastRatio a a = Some 1.0 \<and>
         (\<exists>r. GetContrastRatio a b = Some r \<and> GetContrastRatio b a = Some r) \<and>
         (\<exists>r. GetContrastRatio (LinearColor 0.0 0.0 0.0 1.0) (LinearColor 1.0 1.0 1.0 1.0) = Some r
               \<and> \<bar>r - 21.0\<bar> \<le> 0.1)"
proof -
  from assms have la: "0 \<le> CalculateLuminance a" and lb: "0 \<le> CalculateLuminance b"
    by (simp_all add: InGamut_luminance)
  have self: "GetContrastRatio a a = Some 1"
    using la by (simp add: GetContrastRatio_def Let_def Divide_def)
  have "min (CalculateLuminance a) (CalculateLuminance b) + 0.05 \<noteq> 0"
    using la lb by (simp add: min_def)
  then have ab: "GetContrastRatio a b =
      Some ((max (CalculateLuminance a) (CalculateLuminance b) + 0.05) /
            (min (CalculateLuminance a) (CalculateLuminance b) + 0.05))"
    by (simp add: GetContrastRatio_def Let_def Divide_def)
  have sym: "GetContrastRatio b a = GetContrastRatio a b"
    by (simp add: GetContrastRatio_def Let_def max.commute min.commute)
  have bw: "GetContrastRatio (LinearColor 0.0 0.0 0.0 1.0) (LinearColor 1.0 1.0 1.0 1.0) = Some 21"
    unfolding GetContrastRatio_def Let_def lum_black lum_white by (simp add: Divide_def)
  from self ab sym bw show ?thesis by simp
qed

theorem GetContrastRatio_laws_witness:
  "InGamut (LinearColor 0.2 0.2 0.8 1.0) \<and> InGamut (LinearColor 1.0 1.0 1.0 1.0) \<and>
   GetContrastRatio (LinearColor 0.2 0.2 0.8 1.0) (LinearColor 0.2 0.2 0.8 1.0) = Some 1.0 \<and>
   (\<exists>r. GetContrastRatio (LinearColor 0.2 0.2 0.8 1.0) (LinearColor 1.0 1.0 1.0 1.0) = Some r \<and>
        GetContrastRatio (LinearColor 1.0 1.0 1.0 1.0) (LinearColor 0.2 0.2 0.8 1.0) = Some r)"
proof -
  have a: "InGamut (LinearColor 0.2 0.2 0.8 1.0)" and b: "InGamut (LinearColor 1.0 1.0 1.0 1.0)"
    by (simp_all add: InGamut_def LinearColor_def)
  from a b GetContrastRatio_laws [OF a b] show ?thesis by blast
qed

end
